theory Spec2Isabelle
  imports Main "HOL-Library.Multiset"
begin

section \<open>Exceptions\<close>

text \<open>
  The Python exceptions that the modelled functions can raise. A function that can raise
  returns \<open>error + 'a\<close>, with \<open>Inl\<close> for the exception.
  \<^item> \<open>KeyError\<close>: subscripting a dictionary with a key it does not hold;
  \<^item> \<open>AttributeError\<close>: reading \<open>.dt\<close> from the \<open>None\<close> that \<open>event.get\<close> returns
    for an absent property;
  \<^item> \<open>TypeError\<close>: comparing a naive with an aware \<open>datetime\<close>;
  \<^item> \<open>ValueError\<close>: \<open>icalendar.Calendar.from_ical\<close> on a text it cannot parse;
  \<^item> \<open>OverflowError\<close>: date arithmetic whose result leaves the years 1 to 9999, or a
    \<open>timedelta\<close> of more than 999999999 days;
  \<^item> \<open>re_error\<close>: \<open>re.compile\<close> on a string that is no regular expression;
  \<^item> \<open>RequestException\<close>: \<open>requests.get\<close> failing.
\<close>

datatype error =
  KeyError | AttributeError | TypeError | ValueError | OverflowError | re_error
  | RequestException

section \<open>The ping component\<close>

text \<open>
  \<open>homeassistant/components/ping/__init__.py\<close>. The constants \<open>DEFAULT_START_ID\<close> and
  \<open>MAX_PING_ID\<close> come from \<open>const.py\<close>, which is not part of the sources at hand: they are
  parameters of the model. Python integers are unbounded, hence \<open>int\<close>.
\<close>

record ping_const =
  DEFAULT_START_ID :: int
  MAX_PING_ID :: int

text \<open>The dictionary stored at \<open>hass.data[DOMAIN]\<close>, with its two keys.\<close>

record ping_data =
  PING_PRIVS :: "bool option"
  PING_ID :: int

text \<open>\<open>hass.data\<close>, restricted to the key \<open>DOMAIN\<close>: \<open>None\<close> before \<open>async_setup\<close> ran.\<close>

record hass =
  data :: "ping_data option"

text \<open>
  \<open>_can_use_icmp_lib_with_privilege\<close>: the two arguments say whether the privileged and
  the unprivileged probe raise \<open>SocketPermissionError\<close>.
\<close>

definition can_use_icmp_lib_with_privilege :: "bool \<Rightarrow> bool \<Rightarrow> bool option" where
  "can_use_icmp_lib_with_privilege priv_denied unpriv_denied =
     (if priv_denied then (if unpriv_denied then None else Some False) else Some True)"

definition async_setup :: "ping_const \<Rightarrow> bool \<Rightarrow> bool \<Rightarrow> hass \<Rightarrow> hass" where
  "async_setup c priv_denied unpriv_denied h =
     h\<lparr>data := Some \<lparr>PING_PRIVS = can_use_icmp_lib_with_privilege priv_denied unpriv_denied,
                       PING_ID = DEFAULT_START_ID c\<rparr>\<rparr>"

text \<open>
  \<open>async_get_next_ping_id\<close> returns the next id and stores it; the model returns the id
  together with the updated \<open>hass\<close>.
\<close>

definition async_get_next_ping_id :: "ping_const \<Rightarrow> hass \<Rightarrow> error + (int \<times> hass)" where
  "async_get_next_ping_id c h =
     (case data h of
        None \<Rightarrow> Inl KeyError
      | Some d \<Rightarrow>
          (let current_id = PING_ID d;
               next_id = (if current_id = MAX_PING_ID c then DEFAULT_START_ID c
                          else current_id + 1)
           in Inr (next_id, h\<lparr>data := Some (d\<lparr>PING_ID := next_id\<rparr>)\<rparr>)))"

text \<open>\<open>n\<close> successive calls, each on the state the previous one left.\<close>

primrec ping_calls :: "ping_const \<Rightarrow> nat \<Rightarrow> hass \<Rightarrow> error + hass" where
  "ping_calls c 0 h = Inr h"
| "ping_calls c (Suc n) h =
     (case async_get_next_ping_id c h of
        Inl e \<Rightarrow> Inl e
      | Inr (i, h') \<Rightarrow> ping_calls c n h')"

definition ping_id_in_range :: "ping_const \<Rightarrow> hass \<Rightarrow> bool" where
  "ping_id_in_range c h =
     (case data h of
        None \<Rightarrow> False
      | Some d \<Rightarrow> DEFAULT_START_ID c \<le> PING_ID d \<and> PING_ID d \<le> MAX_PING_ID c)"

section \<open>Dates, times and durations\<close>

text \<open>
  Python's \<open>datetime\<close> module, as far as the calendar platform uses it.
  \<^item> A \<open>timedelta\<close> is a number of microseconds.
  \<^item> A \<open>tzinfo\<close> is a fixed offset from UTC, in microseconds; zones whose offset
    changes over the year are not modelled.
  \<^item> A \<open>datetime\<close> is a wall-clock reading (microseconds since the epoch) with an
    optional \<open>tzinfo\<close>: naive when there is none, aware otherwise.
  \<^item> A \<open>date\<close> is a day number (days since the epoch, 1970-01-01).
  \<^item> The \<open>.dt\<close> of a \<open>DTSTART\<close> or \<open>DTEND\<close> property is a \<open>date\<close> or a \<open>datetime\<close>;
    \<open>isinstance(obj, datetime)\<close> tells them apart.
  The module knows the years 1 to 9999 only: adding a \<open>timedelta\<close> raises
  \<open>OverflowError\<close> when the result lies outside them.
\<close>

type_synonym timedelta = int

type_synonym tzinfo = int

datatype datetime = DateTime (wall: int) (tzinfo: "tzinfo option")

datatype date_or_datetime = D int | DT datetime

definition usec_per_day :: int where
  "usec_per_day = 86400000000"

text \<open>
  The first and the last day of the calendar, 0001-01-01 and 9999-12-31, as day numbers
  (the epoch is day 719163 of the calendar, which has 3652059 days), and the readings of
  the \<open>datetime\<close>s that lie within them.
\<close>

definition min_day :: int where
  "min_day = - 719162"

definition max_day :: int where
  "max_day = 2932896"

definition date_in_range :: "int \<Rightarrow> bool" where
  "date_in_range d = (min_day \<le> d \<and> d \<le> max_day)"

definition datetime_in_range :: "int \<Rightarrow> bool" where
  "datetime_in_range w = (min_day * usec_per_day \<le> w \<and> w < (max_day + 1) * usec_per_day)"

text \<open>\<open>timedelta(days=n)\<close>: a \<open>timedelta\<close> holds at most 999999999 days either way.\<close>

definition timedelta_days :: "int \<Rightarrow> error + timedelta" where
  "timedelta_days n =
     (if - 999999999 \<le> n \<and> n \<le> 999999999 then Inr (n * usec_per_day)
      else Inl OverflowError)"

fun isinstance_datetime :: "date_or_datetime \<Rightarrow> bool" where
  "isinstance_datetime (DT x) = True"
| "isinstance_datetime (D d) = False"

text \<open>
  \<open>obj + delta\<close>. A \<open>date\<close> moves by \<open>delta.days\<close> only, the whole days of the
  normalised duration (rounded towards minus infinity, as \<open>div\<close> does); a \<open>datetime\<close>
  moves its wall-clock reading and keeps its \<open>tzinfo\<close>. Either raises \<open>OverflowError\<close>
  when the result is outside the calendar.
\<close>

definition datetime_add :: "datetime \<Rightarrow> timedelta \<Rightarrow> error + datetime" where
  "datetime_add x delta =
     (if datetime_in_range (wall x + delta) then Inr (DateTime (wall x + delta) (tzinfo x))
      else Inl OverflowError)"

fun add_timedelta :: "date_or_datetime \<Rightarrow> timedelta \<Rightarrow> error + date_or_datetime" where
  "add_timedelta (D d) delta =
     (if date_in_range (d + delta div usec_per_day) then Inr (D (d + delta div usec_per_day))
      else Inl OverflowError)"
| "add_timedelta (DT x) delta =
     (case datetime_add x delta of
        Inl e \<Rightarrow> Inl e
      | Inr y \<Rightarrow> Inr (DT y))"

text \<open>\<open>datetime.combine(obj, time.min)\<close>: the naive midnight that starts the day.\<close>

definition combine_time_min :: "int \<Rightarrow> datetime" where
  "combine_time_min d = DateTime (d * usec_per_day) None"

text \<open>
  The position of a \<open>datetime\<close> in the order that comparisons use: two naive values compare
  by their readings, two aware values by their UTC instants (reading minus offset).
\<close>

definition order_key :: "datetime \<Rightarrow> int" where
  "order_key x = (case tzinfo x of None \<Rightarrow> wall x | Some off \<Rightarrow> wall x - off)"

text \<open>\<open>a >= b\<close> on \<open>datetime\<close>s: a naive and an aware value do not compare.\<close>

definition datetime_ge :: "datetime \<Rightarrow> datetime \<Rightarrow> error + bool" where
  "datetime_ge a b =
     (if (tzinfo a = None) = (tzinfo b = None) then Inr (order_key b \<le> order_key a)
      else Inl TypeError)"

section \<open>The iCalendar platform\<close>

subsection \<open>Data\<close>

text \<open>
  An \<open>icalendar.Event\<close> is a dictionary of properties. The model keeps the properties the
  platform reads, each optional: \<open>"SUMMARY" in event\<close> is \<open>SUMMARY ev \<noteq> None\<close>. The
  \<open>.dt\<close> of a date property is stored directly, the \<open>.dt\<close> of \<open>DURATION\<close> is a
  \<open>timedelta\<close>.
\<close>

record Event =
  UID :: "string option"
  SUMMARY :: "string option"
  LOCATION :: "string option"
  DESCRIPTION :: "string option"
  DTSTART :: "date_or_datetime option"
  DTEND :: "date_or_datetime option"
  DURATION :: "timedelta option"

text \<open>
  What the platform takes from outside \<open>calendar.py\<close>, as parameters:
  \<^item> \<open>DEFAULT_TIME_ZONE\<close>: the configured zone of \<open>homeassistant.util.dt\<close>;
  \<^item> \<open>utcnow\<close>: the clock, as a UTC instant, taken as one reading for a run;
  \<^item> \<open>datetime_now\<close>: the naive reading that \<open>datetime.now()\<close> returns;
  \<^item> \<open>re_compile\<close>: \<open>re.compile\<close>. \<open>None\<close> is \<open>re.error\<close>; a compiled pattern is
    represented by its \<open>match\<close> method, \<open>pattern s\<close> being the truth value of
    \<open>pattern.match(s)\<close> (a match object is truthy, \<open>None\<close> is falsy). \<open>match\<close> looks for
    a match that begins at the first character of \<open>s\<close> and may end anywhere;
  \<^item> \<open>requests_get\<close>: the text that \<open>requests.get(url, auth=auth)\<close> answers, \<open>None\<close>
    when the request raises;
  \<^item> \<open>from_ical\<close>: \<open>icalendar.Calendar.from_ical\<close>, \<open>None\<close> when it raises
    \<open>ValueError\<close>;
  \<^item> \<open>ical_between\<close>: \<open>recurring_ical_events.of(calendar).between(start, end)\<close>.
\<close>

record 'cal env =
  DEFAULT_TIME_ZONE :: tzinfo
  utcnow :: int
  datetime_now :: int
  re_compile :: "string \<Rightarrow> (string \<Rightarrow> bool) option"
  requests_get :: "string \<Rightarrow> (string \<times> string) option \<Rightarrow> string option"
  from_ical :: "string \<Rightarrow> 'cal option"
  ical_between :: "'cal \<Rightarrow> datetime \<Rightarrow> datetime \<Rightarrow> Event list"

text \<open>
  \<open>get_hass_date\<close> wraps \<open>obj.isoformat()\<close> under the key \<open>dateTime\<close> or \<open>date\<close>. The
  model keeps the value that is formatted instead of the formatted text.
\<close>

datatype hass_date = dateTime datetime | date int

text \<open>The dictionary that \<open>update\<close> stores in \<open>self.event\<close>.\<close>

record event_dict =
  summary :: "string option"
  start :: hass_date
  end_ :: hass_date
  location :: "string option"
  description :: "string option"

record ICalendarCalendarData =
  url :: string
  auth :: "(string \<times> string) option"
  days :: int
  include_all_day :: bool
  search :: "string option"
  event :: "event_dict option"

subsection \<open>Helpers of \<open>homeassistant.util.dt\<close>\<close>

text \<open>
  Modelled from the spec: \<open>dt.as_local\<close> of \<open>homeassistant.util.dt\<close>, which is not among
  the sources. The spec has a date-only value normalised to local midnight in the
  configured time zone: the naive midnight that \<open>to_datetime\<close> passes is read as a
  wall-clock reading of the configured zone. An aware argument (which \<open>to_datetime\<close>
  never passes) keeps its instant and is expressed in the configured zone.
\<close>

definition as_local :: "'cal env \<Rightarrow> datetime \<Rightarrow> datetime" where
  "as_local env x =
     (case tzinfo x of
        None \<Rightarrow> DateTime (wall x) (Some (DEFAULT_TIME_ZONE env))
      | Some off \<Rightarrow>
          DateTime (wall x - off + DEFAULT_TIME_ZONE env) (Some (DEFAULT_TIME_ZONE env)))"

text \<open>
  Modelled from the spec: \<open>dt.now\<close> of \<open>homeassistant.util.dt\<close>, which is not among the
  sources. The spec's \<open>now\<close> is an instant: the clock reading, aware, in the configured
  zone.
\<close>

definition dt_now :: "'cal env \<Rightarrow> datetime" where
  "dt_now env = DateTime (utcnow env + DEFAULT_TIME_ZONE env) (Some (DEFAULT_TIME_ZONE env))"

subsection \<open>The static methods of \<open>ICalendarCalendarData\<close>\<close>

text \<open>
  \<open>"K" in event and pattern.match(event.get("K"))\<close>, one clause of \<open>is_matching\<close>, as a
  truth value.
\<close>

definition field_match :: "(string \<Rightarrow> bool) \<Rightarrow> string option \<Rightarrow> bool" where
  "field_match pattern fld = (case fld of None \<Rightarrow> False | Some v \<Rightarrow> pattern v)"

text \<open>
  \<open>is_matching\<close>. Python reads \<open>a and b or c and d or e and f\<close> as
  \<open>(a and b) or (c and d) or (e and f)\<close>. The result is a match object, \<open>None\<close> or
  \<open>False\<close>; its only use is as a condition, so the model returns its truth value.
\<close>

definition is_matching :: "'cal env \<Rightarrow> Event \<Rightarrow> string option \<Rightarrow> error + bool" where
  "is_matching env ev srch =
     (case srch of
        None \<Rightarrow> Inr True
      | Some s \<Rightarrow>
          (case re_compile env s of
             None \<Rightarrow> Inl re_error
           | Some pattern \<Rightarrow>
               Inr (field_match pattern (SUMMARY ev)
                    \<or> field_match pattern (LOCATION ev)
                    \<or> field_match pattern (DESCRIPTION ev))))"

definition is_all_day :: "Event \<Rightarrow> error + bool" where
  "is_all_day ev =
     (case DTSTART ev of
        None \<Rightarrow> Inl AttributeError
      | Some obj \<Rightarrow> Inr (\<not> isinstance_datetime obj))"


definition to_datetime :: "'cal env \<Rightarrow> date_or_datetime \<Rightarrow> datetime" where
  "to_datetime env obj =
     (case obj of
        DT x \<Rightarrow>
          (if tzinfo x = None then DateTime (wall x) (Some (DEFAULT_TIME_ZONE env)) else x)
      | D d \<Rightarrow> as_local env (combine_time_min d))"


definition get_end_date :: "Event \<Rightarrow> error + date_or_datetime" where
  "get_end_date obj =
     (case DTEND obj of
        Some enddate \<Rightarrow> Inr enddate
      | None \<Rightarrow>
          (case DURATION obj of
             Some delta \<Rightarrow>
               (case DTSTART obj of
                  None \<Rightarrow> Inl AttributeError
                | Some s \<Rightarrow> add_timedelta s delta)
           | None \<Rightarrow>
               (case DTSTART obj of
                  None \<Rightarrow> Inl AttributeError
                | Some s \<Rightarrow>
                    (case timedelta_days 1 of
                       Inl e \<Rightarrow> Inl e
                     | Inr delta \<Rightarrow> add_timedelta s delta))))"

text \<open>
  \<open>is_over\<close> reads the clock with \<open>dt.now()\<close>; every call within a run is given the
  one reading of the environment.
\<close>

definition is_over :: "'cal env \<Rightarrow> Event \<Rightarrow> error + bool" where
  "is_over env ev =
     (case get_end_date ev of
        Inl e \<Rightarrow> Inl e
      | Inr enddate \<Rightarrow> datetime_ge (dt_now env) (to_datetime env enddate))"

subsection \<open>\<open>list.sort\<close> with a key\<close>

text \<open>
  \<open>events.sort(key=...)\<close> first computes the key of every element, in list order, and
  an exception of the key function ends the sort. It then orders the elements by their
  keys with \<open><\<close> alone, elements with equal keys keeping their order (the sort is
  stable). The keys here are \<open>datetime\<close>s: comparing them raises \<open>TypeError\<close> as soon as
  a naive key meets an aware one, which a sort of two or more elements cannot avoid.
\<close>

fun key_list :: "('a \<Rightarrow> error + 'k) \<Rightarrow> 'a list \<Rightarrow> error + ('k \<times> 'a) list" where
  "key_list key [] = Inr []"
| "key_list key (x # xs) =
     (case key x of
        Inl e \<Rightarrow> Inl e
      | Inr k \<Rightarrow>
          (case key_list key xs of
             Inl e \<Rightarrow> Inl e
           | Inr kxs \<Rightarrow> Inr ((k, x) # kxs)))"

definition comparable_keys :: "datetime list \<Rightarrow> bool" where
  "comparable_keys ks =
     (length ks < 2 \<or> list_all (\<lambda>k. tzinfo k = None) ks
      \<or> list_all (\<lambda>k. tzinfo k \<noteq> None) ks)"

definition list_sort :: "('a \<Rightarrow> error + datetime) \<Rightarrow> 'a list \<Rightarrow> error + 'a list" where
  "list_sort key xs =
     (case key_list key xs of
        Inl e \<Rightarrow> Inl e
      | Inr kxs \<Rightarrow>
          (if comparable_keys (map fst kxs)
           then Inr (map snd (sort_key (\<lambda>kx. order_key (fst kx)) kxs))
           else Inl TypeError))"

subsection \<open>\<open>icalendar_get_events\<close> and \<open>update\<close>\<close>



text \<open>
  The key of the sort in \<open>update\<close>, \<open>lambda x: self.to_datetime(x["DTSTART"].dt)\<close>: the
  subscript raises \<open>KeyError\<close> on an event without \<open>DTSTART\<close>.
\<close>

definition start_key :: "'cal env \<Rightarrow> Event \<Rightarrow> error + datetime" where
  "start_key env x =
     (case DTSTART x of
        None \<Rightarrow> Inl KeyError
      | Some obj \<Rightarrow> Inr (to_datetime env obj))"

text \<open>
  The \<open>next(...)\<close> of \<open>update\<close>: the first event of the list that passes the three
  conditions, \<open>None\<close> when there is none. The conditions are evaluated in the order
  of the source, \<open>and\<close> skipping the ones after a false one, and an exception of a condition
  ends the search.
\<close>

fun next_event :: "'cal env \<Rightarrow> ICalendarCalendarData \<Rightarrow> Event list \<Rightarrow> error + Event option" where
  "next_event env self [] = Inr None"
| "next_event env self (ev # evs) =
     (case is_matching env ev (search self) of
        Inl e \<Rightarrow> Inl e
      | Inr False \<Rightarrow> next_event env self evs
      | Inr True \<Rightarrow>
          (case is_all_day ev of
             Inl e \<Rightarrow> Inl e
           | Inr all_day \<Rightarrow>
               (if \<not> all_day \<or> include_all_day self
                then (case is_over env ev of
                        Inl e \<Rightarrow> Inl e
                      | Inr True \<Rightarrow> next_event env self evs
                      | Inr False \<Rightarrow> Inr (Some ev))
                else next_event env self evs)))"

text \<open>
  The event that \<open>update\<close> selects from the events of the calendar: the list sorted by
  start, then searched.
\<close>

definition select_event ::
  "'cal env \<Rightarrow> ICalendarCalendarData \<Rightarrow> Event list \<Rightarrow> error + Event option" where
  "select_event env self events =
     (case list_sort (start_key env) events of
        Inl e \<Rightarrow> Inl e
      | Inr sorted_events \<Rightarrow> next_event env self sorted_events)"




subsection \<open>The quantities the properties are stated with\<close>




text \<open>The condition of the search in \<open>update\<close>, each part evaluated without exception.\<close>

definition qualifies :: "'cal env \<Rightarrow> ICalendarCalendarData \<Rightarrow> Event \<Rightarrow> bool" where
  "qualifies env self ev =
     (is_matching env ev (search self) = Inr True
      \<and> (is_all_day ev = Inr False \<or> include_all_day self)
      \<and> is_over env ev = Inr False)"

subsection \<open>Sample data\<close>

text \<open>
  \<open>re.compile\<close> on the patterns of the examples: the empty pattern and \<open>.*\<close> match at
  the start of every string, \<open>^Meeting\<close> matches the strings that begin with
  \<open>Meeting\<close>, and \<open>[\<close> is rejected (an unterminated character set). Other strings are
  outside the sample and are treated as rejected.
\<close>

definition example_re_compile :: "string \<Rightarrow> (string \<Rightarrow> bool) option" where
  "example_re_compile s =
     (if s = [] then Some (\<lambda>t. True)
      else if s = ''.*'' then Some (\<lambda>t. True)
      else if s = ''^Meeting'' then Some (\<lambda>t. take 7 t = ''Meeting'')
      else None)"

text \<open>
  An environment one hour east of UTC whose calendar, at one address, parses to the given
  events, all of them inside the window; the parsed calendar is represented by the list
  of its events. A second address answers a text that does not parse, and every other
  request fails.
\<close>

definition example_env :: "int \<Rightarrow> Event list \<Rightarrow> (Event list) env" where
  "example_env now evs =
     \<lparr>DEFAULT_TIME_ZONE = 3600000000,
      utcnow = now,
      datetime_now = now + 3600000000,
      re_compile = example_re_compile,
      requests_get = (\<lambda>u a. if u = ''https://example.org/cal.ics''
                             then Some ''BEGIN:VCALENDAR''
                             else if u = ''https://example.org/broken.ics''
                             then Some ''not a calendar'' else None),
      from_ical = (\<lambda>t. if t = ''BEGIN:VCALENDAR'' then Some evs else None),
      ical_between = (\<lambda>cal s e. cal)\<rparr>"

definition example_self :: "bool \<Rightarrow> string option \<Rightarrow> ICalendarCalendarData" where
  "example_self all_day srch =
     \<lparr>url = ''https://example.org/cal.ics'', auth = None, days = 7,
      include_all_day = all_day, search = srch, event = None\<rparr>"

text \<open>
  The two occurrences of the spec's example. \<open>event_A\<close> is all-day on 2024-01-01 (day
  19723 of the epoch); \<open>event_B\<close> starts at 10:00 that day, as a floating time, and lasts
  one hour. 09:00 and 11:00 that day in the zone of \<open>example_env\<close> are the UTC instants
  \<open>nine_local\<close> and \<open>eleven_local\<close>.
\<close>

definition event_A :: Event where
  "event_A =
     \<lparr>UID = None, SUMMARY = Some ''Holiday'', LOCATION = None, DESCRIPTION = None,
      DTSTART = Some (D 19723), DTEND = None, DURATION = None\<rparr>"

definition event_B :: Event where
  "event_B =
     \<lparr>UID = None, SUMMARY = Some ''Meeting with Bob'', LOCATION = None, DESCRIPTION = None,
      DTSTART = Some (DT (DateTime 1704103200000000 None)), DTEND = None,
      DURATION = Some 3600000000\<rparr>"

definition nine_local :: int where
  "nine_local = 1704096000000000"

definition eleven_local :: int where
  "eleven_local = 1704103200000000"

text \<open>
  An all-day event on 9999-12-31, the last day of the calendar, with neither \<open>DTEND\<close> nor
  \<open>DURATION\<close>; and the window of the example, the seven days from 2024-01-01.
\<close>

definition event_last_day :: Event where
  "event_last_day =
     \<lparr>UID = None, SUMMARY = Some ''End of time'', LOCATION = None, DESCRIPTION = None,
      DTSTART = Some (D 2932896), DTEND = None, DURATION = None\<rparr>"


text \<open>An event with a start and none of the three text properties.\<close>

definition event_bare :: Event where
  "event_bare =
     \<lparr>UID = None, SUMMARY = None, LOCATION = None, DESCRIPTION = None,
      DTSTART = Some (DT (DateTime 1704103200000000 None)), DTEND = None,
      DURATION = None\<rparr>"

section \<open>Properties of the ping component\<close>

lemma async_get_next_ping_id_step:
  assumes "data h = Some d"
  shows "async_get_next_ping_id c h =
           Inr (if PING_ID d = MAX_PING_ID c then DEFAULT_START_ID c else PING_ID d + 1,
                h\<lparr>data := Some (d\<lparr>PING_ID :=
                     (if PING_ID d = MAX_PING_ID c then DEFAULT_START_ID c
                      else PING_ID d + 1)\<rparr>)\<rparr>)"
  using assms by (simp add: async_get_next_ping_id_def Let_def)

lemma ping_id_in_range_step:
  assumes "ping_id_in_range c h"
  shows "\<exists>i h'. async_get_next_ping_id c h = Inr (i, h') \<and> ping_id_in_range c h'"
proof -
  from assms obtain d where d: "data h = Some d"
    and lo: "DEFAULT_START_ID c \<le> PING_ID d" and hi: "PING_ID d \<le> MAX_PING_ID c"
    by (auto simp: ping_id_in_range_def split: option.splits)
  show ?thesis
  proof (cases "PING_ID d = MAX_PING_ID c")
    case True
    with d lo show ?thesis
      by (simp add: async_get_next_ping_id_step ping_id_in_range_def)
  next
    case False
    with d lo hi show ?thesis
      by (simp add: async_get_next_ping_id_step ping_id_in_range_def)
  qed
qed

lemma ping_calls_in_range:
  "ping_id_in_range c h \<Longrightarrow> \<exists>h'. ping_calls c n h = Inr h' \<and> ping_id_in_range c h'"
proof (induction n arbitrary: h)
  case 0
  then show ?case by simp
next
  case (Suc n)
  from ping_id_in_range_step [OF Suc.prems] obtain i h1
    where s: "async_get_next_ping_id c h = Inr (i, h1)" and r: "ping_id_in_range c h1"
    by blast
  from Suc.IH [OF r] s show ?case by simp
qed

lemma async_setup_in_range:
  "DEFAULT_START_ID c \<le> MAX_PING_ID c \<Longrightarrow> ping_id_in_range c (async_setup c p u h)"
  by (simp add: async_setup_def ping_id_in_range_def)

text \<open>
  Claim C9. A call of \<open>async_get_next_ping_id\<close> on a set-up component returns and stores
  \<open>DEFAULT_START_ID\<close> when the stored id equals \<open>MAX_PING_ID\<close>, and the stored id plus one
  otherwise. Consequently, with the two constants ordered as their names say
  (\<open>DEFAULT_START_ID \<le> MAX_PING_ID\<close>), every sequence of calls after \<open>async_setup\<close>
  succeeds and leaves the stored id within \<open>[DEFAULT_START_ID, MAX_PING_ID]\<close>.
\<close>

theorem ping_id_wraps_and_stays_in_range:
  assumes "DEFAULT_START_ID c \<le> MAX_PING_ID c"
  shows "(\<forall>h d. data h = Some d \<longrightarrow>
            (\<exists>h'. async_get_next_ping_id c h =
                     Inr (if PING_ID d = MAX_PING_ID c then DEFAULT_START_ID c
                          else PING_ID d + 1, h')
                 \<and> map_option PING_ID (data h') =
                     Some (if PING_ID d = MAX_PING_ID c then DEFAULT_START_ID c
                           else PING_ID d + 1)))
       \<and> (\<forall>n p u h. \<exists>h' d'. ping_calls c n (async_setup c p u h) = Inr h'
              \<and> data h' = Some d'
              \<and> DEFAULT_START_ID c \<le> PING_ID d' \<and> PING_ID d' \<le> MAX_PING_ID c)"
proof (intro conjI allI impI)
  fix h :: hass and d :: ping_data
  assume "data h = Some d"
  then show "\<exists>h'. async_get_next_ping_id c h =
                     Inr (if PING_ID d = MAX_PING_ID c then DEFAULT_START_ID c
                          else PING_ID d + 1, h')
                 \<and> map_option PING_ID (data h') =
                     Some (if PING_ID d = MAX_PING_ID c then DEFAULT_START_ID c
                           else PING_ID d + 1)"
    by (simp add: async_get_next_ping_id_step)
next
  fix n p u and h :: hass
  from ping_calls_in_range [OF async_setup_in_range [OF assms]]
  obtain h' where "ping_calls c n (async_setup c p u h) = Inr h'"
    and "ping_id_in_range c h'"
    by blast
  then show "\<exists>h' d'. ping_calls c n (async_setup c p u h) = Inr h'
              \<and> data h' = Some d'
              \<and> DEFAULT_START_ID c \<le> PING_ID d' \<and> PING_ID d' \<le> MAX_PING_ID c"
    by (auto simp: ping_id_in_range_def split: option.splits)
qed

text \<open>
  The theorem at the constants \<open>129\<close> and \<open>131\<close>: three calls after set-up step through
  \<open>130\<close> and \<open>131\<close> and wrap to \<open>129\<close>.
\<close>

theorem ping_id_wraps_and_stays_in_range_witness:
  "DEFAULT_START_ID \<lparr>DEFAULT_START_ID = 129, MAX_PING_ID = 131\<rparr>
     \<le> MAX_PING_ID \<lparr>DEFAULT_START_ID = 129, MAX_PING_ID = 131\<rparr>
   \<and> (\<exists>h'. ping_calls \<lparr>DEFAULT_START_ID = 129, MAX_PING_ID = 131\<rparr> 3
              (async_setup \<lparr>DEFAULT_START_ID = 129, MAX_PING_ID = 131\<rparr> False False
                 \<lparr>data = None\<rparr>) = Inr h'
          \<and> map_option PING_ID (data h') = Some 129)"
proof -
  let ?c = "\<lparr>DEFAULT_START_ID = 129, MAX_PING_ID = 131\<rparr>"
  have le: "DEFAULT_START_ID ?c \<le> MAX_PING_ID ?c" by simp
  have run: "ping_calls ?c 3 (async_setup ?c False False \<lparr>data = None\<rparr>)
               = Inr \<lparr>data = Some \<lparr>PING_PRIVS = Some True, PING_ID = 129\<rparr>\<rparr>"
    by (simp add: numeral_3_eq_3 async_setup_def async_get_next_ping_id_def
        can_use_icmp_lib_with_privilege_def)
  from ping_id_wraps_and_stays_in_range [OF le] have
    "\<exists>h' d'. ping_calls ?c 3 (async_setup ?c False False \<lparr>data = None\<rparr>) = Inr h'
        \<and> data h' = Some d'
        \<and> DEFAULT_START_ID ?c \<le> PING_ID d' \<and> PING_ID d' \<le> MAX_PING_ID ?c"
    by blast
  with le run show ?thesis by simp
qed

section \<open>Properties of the iCalendar platform\<close>

subsection \<open>Auxiliary facts\<close>

lemma to_datetime_aware: "tzinfo (to_datetime env obj) \<noteq> None"
  by (simp add: to_datetime_def as_local_def combine_time_min_def split: date_or_datetime.splits)

lemma order_key_dt_now: "order_key (dt_now env) = utcnow env"
  by (simp add: order_key_def dt_now_def)

lemma datetime_ge_now:
  "datetime_ge (dt_now env) (to_datetime env obj)
     = Inr (order_key (to_datetime env obj) \<le> utcnow env)"
  using to_datetime_aware [of env obj]
  by (simp add: datetime_ge_def order_key_dt_now) (simp add: dt_now_def)

lemma timedelta_days_1: "timedelta_days 1 = Inr usec_per_day"
  by (simp add: timedelta_days_def)






lemma key_list_snd:
  "key_list key xs = Inr kxs \<Longrightarrow> map snd kxs = xs"
  by (induction xs arbitrary: kxs) (auto split: sum.splits)





lemma list_sort_set:
  "list_sort key xs = Inr ys \<Longrightarrow> set ys = set xs"
proof -
  assume a: "list_sort key xs = Inr ys"
  then obtain kxs where k: "key_list key xs = Inr kxs"
    and ys: "ys = map snd (sort_key (\<lambda>kx. order_key (fst kx)) kxs)"
    by (auto simp: list_sort_def split: sum.splits if_splits)
  have "set ys = snd ` set kxs" using ys by simp
  also have "\<dots> = set (map snd kxs)" by simp
  also have "\<dots> = set xs" using key_list_snd [OF k] by simp
  finally show ?thesis .
qed


lemma next_event_Some:
  "next_event env self evs = Inr (Some ev) \<Longrightarrow> ev \<in> set evs \<and> qualifies env self ev"
  by (induction evs) (auto simp: qualifies_def split: sum.splits bool.splits if_splits)





lemma select_event_Some:
  assumes "select_event env self events = Inr (Some ev)"
  shows "ev \<in> set events \<and> qualifies env self ev"
proof -
  from assms obtain sorted_events where s: "list_sort (start_key env) events = Inr sorted_events"
    and n: "next_event env self sorted_events = Inr (Some ev)"
    by (auto simp: select_event_def split: sum.splits)
  from next_event_Some [OF n] list_sort_set [OF s] show ?thesis by simp
qed


subsection \<open>Sorting and selection\<close>




subsection \<open>The spec's example, evaluated\<close>

text \<open>
  With the all-day event A and the timed event B, all-day events excluded and no
  search: at 09:00 the selection is B, at 11:00 (B is over) it is empty.
\<close>

lemma select_example_nine:
  "select_event (example_env nine_local [event_A, event_B]) (example_self False None)
     [event_A, event_B] = Inr (Some event_B)"
  by (simp add: select_event_def list_sort_def start_key_def comparable_keys_def
      to_datetime_def as_local_def combine_time_min_def order_key_def usec_per_day_def
      example_env_def example_self_def event_A_def event_B_def nine_local_def
      is_matching_def is_all_day_def is_over_def get_end_date_def datetime_ge_def dt_now_def
      timedelta_days_def datetime_add_def datetime_in_range_def date_in_range_def
      min_day_def max_day_def)


subsection \<open>The end of an event\<close>

lemma get_end_date_event_B:
  "get_end_date event_B = Inr (DT (DateTime 1704106800000000 None))"
  by (simp add: get_end_date_def event_B_def datetime_add_def datetime_in_range_def
      min_day_def max_day_def usec_per_day_def)

text \<open>
  Claim C2, as the code has it. \<open>get_end_date\<close> returns the explicit end when \<open>DTEND\<close>
  is present, whatever the other properties; otherwise the start plus the duration when
  \<open>DURATION\<close> is present; otherwise the start plus one day. The sum is Python's: a date
  moves by the whole days of the duration, a \<open>datetime\<close> moves its reading and keeps its
  zone, and a sum outside the years 1 to 9999 raises \<open>OverflowError\<close> instead of
  returning; one day after a date is the next day, up to 9999-12-31. Without \<open>DTEND\<close> and
  without start the method raises \<open>AttributeError\<close>. The cases cover every combination
  of presence.
\<close>

theorem get_end_date_precedence:
  "(DTEND obj = Some enddate \<longrightarrow> get_end_date obj = Inr enddate)
   \<and> (DTEND obj = None \<and> DURATION obj = Some delta \<and> DTSTART obj = Some s
        \<longrightarrow> get_end_date obj = add_timedelta s delta)
   \<and> (DTEND obj = None \<and> DURATION obj = None \<and> DTSTART obj = Some s
        \<longrightarrow> get_end_date obj = add_timedelta s usec_per_day)
   \<and> (DTEND obj = None \<and> DTSTART obj = None \<longrightarrow> get_end_date obj = Inl AttributeError)
   \<and> add_timedelta (D d) dl
        = (if min_day \<le> d + dl div usec_per_day \<and> d + dl div usec_per_day \<le> max_day
           then Inr (D (d + dl div usec_per_day)) else Inl OverflowError)
   \<and> add_timedelta (DT (DateTime w z)) dl
        = (if min_day * usec_per_day \<le> w + dl \<and> w + dl < (max_day + 1) * usec_per_day
           then Inr (DT (DateTime (w + dl) z)) else Inl OverflowError)
   \<and> add_timedelta (D d) usec_per_day
        = (if min_day \<le> d + 1 \<and> d + 1 \<le> max_day then Inr (D (d + 1))
           else Inl OverflowError)"
proof (intro conjI impI)
  assume "DTEND obj = Some enddate"
  then show "get_end_date obj = Inr enddate"
    by (simp add: get_end_date_def)
next
  assume "DTEND obj = None \<and> DURATION obj = Some delta \<and> DTSTART obj = Some s"
  then show "get_end_date obj = add_timedelta s delta"
    by (simp add: get_end_date_def)
next
  assume "DTEND obj = None \<and> DURATION obj = None \<and> DTSTART obj = Some s"
  then show "get_end_date obj = add_timedelta s usec_per_day"
    by (simp add: get_end_date_def timedelta_days_1)
next
  assume "DTEND obj = None \<and> DTSTART obj = None"
  then show "get_end_date obj = Inl AttributeError"
    by (simp add: get_end_date_def split: option.splits)
next
  show "add_timedelta (D d) dl
        = (if min_day \<le> d + dl div usec_per_day \<and> d + dl div usec_per_day \<le> max_day
           then Inr (D (d + dl div usec_per_day)) else Inl OverflowError)"
    by (simp add: date_in_range_def)
next
  show "add_timedelta (DT (DateTime w z)) dl
        = (if min_day * usec_per_day \<le> w + dl \<and> w + dl < (max_day + 1) * usec_per_day
           then Inr (DT (DateTime (w + dl) z)) else Inl OverflowError)"
    by (simp add: datetime_add_def datetime_in_range_def)
next
  have "usec_per_day div usec_per_day = 1" by (simp add: usec_per_day_def)
  then show "add_timedelta (D d) usec_per_day
        = (if min_day \<le> d + 1 \<and> d + 1 \<le> max_day then Inr (D (d + 1))
           else Inl OverflowError)"
    by (simp add: date_in_range_def)
qed

text \<open>
  The cases on sample events: B given an explicit end, B with its duration of one hour, A
  with neither, and A given a duration of two days and an hour, which moves the date by
  two days.
\<close>

theorem get_end_date_precedence_witness:
  "get_end_date (event_B\<lparr>DTEND := Some (D 19730)\<rparr>) = Inr (D 19730)
   \<and> get_end_date event_B = Inr (DT (DateTime 1704106800000000 None))
   \<and> get_end_date event_A = Inr (D 19724)
   \<and> get_end_date (event_A\<lparr>DURATION := Some 176400000000\<rparr>) = Inr (D 19725)"
proof -
  have "get_end_date (event_B\<lparr>DTEND := Some (D 19730)\<rparr>) = Inr (D 19730)"
    using get_end_date_precedence [of "event_B\<lparr>DTEND := Some (D 19730)\<rparr>" "D 19730"]
    by simp
  moreover have "get_end_date event_B = Inr (DT (DateTime 1704106800000000 None))"
    using get_end_date_precedence
      [of event_B _ 3600000000 "DT (DateTime 1704103200000000 None)" _
          3600000000 1704103200000000 None]
    by (simp add: event_B_def min_day_def max_day_def usec_per_day_def)
  moreover have "get_end_date event_A = Inr (D 19724)"
    using get_end_date_precedence [of event_A _ _ "D 19723" 19723]
    by (simp add: event_A_def min_day_def max_day_def usec_per_day_def)
  moreover have "get_end_date (event_A\<lparr>DURATION := Some 176400000000\<rparr>) = Inr (D 19725)"
    using get_end_date_precedence
      [of "event_A\<lparr>DURATION := Some 176400000000\<rparr>" _ 176400000000 "D 19723" 19723
          176400000000]
    by (simp add: event_A_def min_day_def max_day_def usec_per_day_def)
  ultimately show ?thesis by simp
qed

text \<open>
  Against claim C2 as stated (without end and duration the method returns the start
  plus one day, for every record): on the all-day event of 9999-12-31 the sum is outside
  the calendar and the method raises \<open>OverflowError\<close>.
\<close>

theorem get_end_date_overflow_counterexample:
  "DTSTART event_last_day = Some (D 2932896)
   \<and> DTEND event_last_day = None \<and> DURATION event_last_day = None
   \<and> get_end_date event_last_day = Inl OverflowError"
  by (simp add: get_end_date_def timedelta_days_1 date_in_range_def max_day_def
      usec_per_day_def event_last_day_def)

subsection \<open>What the selection excludes\<close>

text \<open>
  Claim C3. An event that the selection returns is not over: \<open>is_over\<close> is false on
  it, its derived end lying strictly after the clock reading. And \<open>is_over\<close> is the
  comparison \<open>now >= to_datetime(get_end_date(event))\<close>, which never raises, both sides
  being aware: it is true exactly when the comparable end is at or before \<open>now\<close>.
\<close>

theorem selected_event_not_over:
  "(select_event env self events = Inr (Some ev) \<longrightarrow>
      is_over env ev = Inr False
      \<and> (\<exists>enddate. get_end_date ev = Inr enddate
            \<and> utcnow env < order_key (to_datetime env enddate)))
   \<and> (get_end_date ev' = Inr enddate' \<longrightarrow>
        is_over env ev' = datetime_ge (dt_now env) (to_datetime env enddate')
        \<and> is_over env ev' = Inr (order_key (to_datetime env enddate') \<le> order_key (dt_now env)))"
proof (intro conjI impI)
  assume "select_event env self events = Inr (Some ev)"
  then have q: "is_over env ev = Inr False"
    using select_event_Some by (auto simp: qualifies_def)
  then show "is_over env ev = Inr False" .
  from q show "\<exists>enddate. get_end_date ev = Inr enddate
            \<and> utcnow env < order_key (to_datetime env enddate)"
    by (auto simp: is_over_def datetime_ge_now split: sum.splits)
next
  assume "get_end_date ev' = Inr enddate'"
  then show "is_over env ev' = datetime_ge (dt_now env) (to_datetime env enddate')"
    by (simp add: is_over_def)
next
  assume "get_end_date ev' = Inr enddate'"
  then show "is_over env ev' = Inr (order_key (to_datetime env enddate') \<le> order_key (dt_now env))"
    by (simp add: is_over_def datetime_ge_now order_key_dt_now)
qed

text \<open>
  On the example: at 09:00 the selected event B is not over; its end is 11:00, and at
  11:00 it is over.
\<close>

theorem selected_event_not_over_witness:
  "select_event (example_env nine_local [event_A, event_B]) (example_self False None)
     [event_A, event_B] = Inr (Some event_B)
   \<and> is_over (example_env nine_local [event_A, event_B]) event_B = Inr False
   \<and> get_end_date event_B = Inr (DT (DateTime 1704106800000000 None))
   \<and> is_over (example_env eleven_local [event_A, event_B]) event_B = Inr True"
proof -
  let ?E = "example_env nine_local [event_A, event_B]"
  let ?F = "example_env eleven_local [event_A, event_B]"
  have e: "get_end_date event_B = Inr (DT (DateTime 1704106800000000 None))"
    by (rule get_end_date_event_B)
  have "is_over ?E event_B = Inr False"
    using selected_event_not_over [of ?E "example_self False None" "[event_A, event_B]" event_B]
      select_example_nine by simp
  moreover have "is_over ?F event_B
      = Inr (order_key (to_datetime ?F (DT (DateTime 1704106800000000 None)))
               \<le> order_key (dt_now ?F))"
    using selected_event_not_over [of ?F _ _ _ event_B "DT (DateTime 1704106800000000 None)"] e
    by blast
  then have "is_over ?F event_B = Inr True"
    by (simp add: to_datetime_def order_key_def dt_now_def example_env_def eleven_local_def)
  ultimately show ?thesis using e select_example_nine by simp
qed

text \<open>
  Claim C4. With \<open>include_all_day\<close> false, an event that the selection returns is not
  all-day: its start is a \<open>datetime\<close>. And \<open>is_all_day\<close> is true exactly on the events
  whose start is a date.
\<close>

theorem all_day_never_selected_when_excluded:
  assumes "\<not> include_all_day self"
    and "select_event env self events = Inr (Some ev)"
  shows "is_all_day ev = Inr False
       \<and> (\<exists>x. DTSTART ev = Some (DT x))
       \<and> (\<forall>ev'. (is_all_day ev' = Inr True) = (\<exists>d. DTSTART ev' = Some (D d)))"
proof -
  from select_event_Some [OF assms(2)] assms(1) have a: "is_all_day ev = Inr False"
    by (simp add: qualifies_def)
  have c: "(is_all_day ev' = Inr True) = (\<exists>d. DTSTART ev' = Some (D d))" for ev'
  proof (cases "DTSTART ev'")
    case None
    then show ?thesis by (simp add: is_all_day_def)
  next
    case (Some obj)
    then show ?thesis by (cases obj) (simp_all add: is_all_day_def)
  qed
  have "\<exists>x. DTSTART ev = Some (DT x)"
  proof (cases "DTSTART ev")
    case None
    with a show ?thesis by (simp add: is_all_day_def)
  next
    case (Some obj)
    with a show ?thesis by (cases obj) (simp_all add: is_all_day_def)
  qed
  with a c show ?thesis by blast
qed

text \<open>
  On the example: with all-day events excluded the selection is the timed event B, not
  the all-day event A that sorts before it.
\<close>

theorem all_day_never_selected_when_excluded_witness:
  "include_all_day (example_self False None) = False
   \<and> select_event (example_env nine_local [event_A, event_B]) (example_self False None)
        [event_A, event_B] = Inr (Some event_B)
   \<and> is_all_day event_B = Inr False
   \<and> is_all_day event_A = Inr True"
proof -
  have h: "\<not> include_all_day (example_self False None)" by (simp add: example_self_def)
  from all_day_never_selected_when_excluded [OF h select_example_nine]
  have "is_all_day event_B = Inr False"
    and "\<forall>ev'. (is_all_day ev' = Inr True) = (\<exists>d. DTSTART ev' = Some (D d))"
    by blast+
  moreover have "\<exists>d. DTSTART event_A = Some (D d)" by (simp add: event_A_def)
  ultimately show ?thesis using h select_example_nine by simp
qed

subsection \<open>Comparable values\<close>

text \<open>
  Claim C6. \<open>to_datetime\<close> turns a date into the midnight that starts it, read in the
  configured zone; a naive \<open>datetime\<close> into the same wall-clock reading tagged with the
  configured zone; and returns an aware \<open>datetime\<close> unchanged.
\<close>

theorem to_datetime_cases:
  "to_datetime env (D d) = DateTime (d * usec_per_day) (Some (DEFAULT_TIME_ZONE env))
   \<and> to_datetime env (DT (DateTime w None)) = DateTime w (Some (DEFAULT_TIME_ZONE env))
   \<and> to_datetime env (DT (DateTime w (Some z))) = DateTime w (Some z)"
  by (simp add: to_datetime_def as_local_def combine_time_min_def)

subsection \<open>Matching\<close>

lemma field_match_iff: "field_match pattern fld = (\<exists>v. fld = Some v \<and> pattern v)"
  by (cases fld) (simp_all add: field_match_def)

text \<open>
  Claim C5, as the code has it. For a pattern that \<open>re.compile\<close> accepts,
  \<open>is_matching\<close> is true exactly when \<open>pattern.match\<close> succeeds on the summary, the
  location or the description, each an independent alternative and an absent property
  never matching; a string that \<open>re.compile\<close> rejects raises \<open>re.error\<close>. With the
  search unset (\<open>None\<close>) it is true for every event, and the unset search is the only one
  under which it is true for every event: an empty pattern is compiled and matched like
  any other.
\<close>

theorem is_matching_or_of_fields:
  "(re_compile env s = Some pattern \<longrightarrow>
      is_matching env ev (Some s)
        = Inr ((\<exists>v. SUMMARY ev = Some v \<and> pattern v)
               \<or> (\<exists>v. LOCATION ev = Some v \<and> pattern v)
               \<or> (\<exists>v. DESCRIPTION ev = Some v \<and> pattern v)))
   \<and> (re_compile env s = None \<longrightarrow> is_matching env ev (Some s) = Inl re_error)
   \<and> is_matching env ev None = Inr True
   \<and> ((\<forall>ev'. is_matching env ev' srch = Inr True) = (srch = None))"
proof (intro conjI impI)
  assume "re_compile env s = Some pattern"
  then show "is_matching env ev (Some s)
        = Inr ((\<exists>v. SUMMARY ev = Some v \<and> pattern v)
               \<or> (\<exists>v. LOCATION ev = Some v \<and> pattern v)
               \<or> (\<exists>v. DESCRIPTION ev = Some v \<and> pattern v))"
    by (simp add: is_matching_def field_match_iff)
next
  assume "re_compile env s = None"
  then show "is_matching env ev (Some s) = Inl re_error"
    by (simp add: is_matching_def)
next
  show "is_matching env ev None = Inr True"
    by (simp add: is_matching_def)
next
  show "(\<forall>ev'. is_matching env ev' srch = Inr True) = (srch = None)"
  proof
    assume a: "\<forall>ev'. is_matching env ev' srch = Inr True"
    show "srch = None"
    proof (cases srch)
      case None
      then show ?thesis .
    next
      case (Some s')
      from a have "is_matching env event_bare (Some s') = Inr True"
        using Some by simp
      then show ?thesis
        by (simp add: is_matching_def field_match_def event_bare_def split: option.splits)
    qed
  next
    assume "srch = None"
    then show "\<forall>ev'. is_matching env ev' srch = Inr True"
      by (simp add: is_matching_def)
  qed
qed

text \<open>
  The spec's example: \<open>^Meeting\<close> matches the summary \<open>Meeting with Bob\<close> and not
  \<open>Team Meeting\<close>; with no summary, a matching location is enough.
\<close>

theorem is_matching_or_of_fields_witness:
  "re_compile (example_env nine_local []) ''^Meeting'' = Some (\<lambda>t. take 7 t = ''Meeting'')
   \<and> is_matching (example_env nine_local []) event_B (Some ''^Meeting'') = Inr True
   \<and> is_matching (example_env nine_local [])
        (event_B\<lparr>SUMMARY := Some ''Team Meeting''\<rparr>) (Some ''^Meeting'') = Inr False
   \<and> is_matching (example_env nine_local [])
        (event_B\<lparr>SUMMARY := None, LOCATION := Some ''Meeting room''\<rparr>) (Some ''^Meeting'')
        = Inr True"
proof -
  let ?E = "example_env nine_local []"
  let ?p = "\<lambda>t::string. take 7 t = ''Meeting''"
  have c: "re_compile ?E ''^Meeting'' = Some ?p"
    by (simp add: example_env_def example_re_compile_def)
  have "is_matching ?E event_B (Some ''^Meeting'') = Inr True"
    using is_matching_or_of_fields [of ?E "''^Meeting''" ?p event_B] c
    by (simp add: event_B_def)
  moreover have "is_matching ?E (event_B\<lparr>SUMMARY := Some ''Team Meeting''\<rparr>)
                   (Some ''^Meeting'') = Inr False"
    using is_matching_or_of_fields
      [of ?E "''^Meeting''" ?p "event_B\<lparr>SUMMARY := Some ''Team Meeting''\<rparr>"] c
    by (simp add: event_B_def)
  moreover have "is_matching ?E
        (event_B\<lparr>SUMMARY := None, LOCATION := Some ''Meeting room''\<rparr>) (Some ''^Meeting'')
        = Inr True"
    using is_matching_or_of_fields
      [of ?E "''^Meeting''" ?p
          "event_B\<lparr>SUMMARY := None, LOCATION := Some ''Meeting room''\<rparr>"] c
    by (simp add: event_B_def)
  ultimately show ?thesis using c by simp
qed

text \<open>
  Against claim C5 as stated (the empty pattern matches every occurrence): the empty
  pattern compiles, and an event with none of the three properties does not match it.
\<close>

theorem empty_pattern_counterexample:
  "re_compile (example_env nine_local [event_bare]) '''' \<noteq> None
   \<and> is_matching (example_env nine_local [event_bare]) event_bare (Some '''') = Inr False"
  by (simp add: is_matching_def field_match_def event_bare_def example_env_def
      example_re_compile_def)

text \<open>
  Claim C10. On an event with none of \<open>SUMMARY\<close>, \<open>LOCATION\<close> and \<open>DESCRIPTION\<close>,
  \<open>is_matching\<close> is false for every pattern that compiles and true for no search string
  at all, so whenever a search is set such an event is never the one selected.
\<close>

theorem bare_event_never_matches:
  assumes "SUMMARY ev = None" and "LOCATION ev = None" and "DESCRIPTION ev = None"
  shows "(\<forall>s pattern. re_compile env s = Some pattern \<longrightarrow>
            is_matching env ev (Some s) = Inr False)
       \<and> (\<forall>s. is_matching env ev (Some s) \<noteq> Inr True)
       \<and> (\<forall>self events. search self \<noteq> None \<longrightarrow>
            select_event env self events \<noteq> Inr (Some ev))"
proof (intro conjI allI impI)
  fix s pattern
  assume "re_compile env s = Some pattern"
  with assms show "is_matching env ev (Some s) = Inr False"
    by (simp add: is_matching_def field_match_def)
next
  fix s
  from assms show "is_matching env ev (Some s) \<noteq> Inr True"
    by (simp add: is_matching_def field_match_def split: option.splits)
next
  fix self :: ICalendarCalendarData and events
  assume n: "search self \<noteq> None"
  show "select_event env self events \<noteq> Inr (Some ev)"
  proof
    assume "select_event env self events = Inr (Some ev)"
    from select_event_Some [OF this] have "is_matching env ev (search self) = Inr True"
      by (simp add: qualifies_def)
    with n assms show False
      by (auto simp: is_matching_def field_match_def split: option.splits)
  qed
qed

text \<open>
  With the default search \<open>.*\<close>: the bare event does not match, and a calendar that
  holds it alone yields no selection.
\<close>

theorem bare_event_never_matches_witness:
  "SUMMARY event_bare = None \<and> LOCATION event_bare = None \<and> DESCRIPTION event_bare = None
   \<and> re_compile (example_env nine_local [event_bare]) ''.*'' \<noteq> None
   \<and> is_matching (example_env nine_local [event_bare]) event_bare (Some ''.*'') = Inr False
   \<and> select_event (example_env nine_local [event_bare]) (example_self True (Some ''.*''))
        [event_bare] = Inr None"
proof -
  let ?E = "example_env nine_local [event_bare]"
  have h: "SUMMARY event_bare = None" "LOCATION event_bare = None"
    "DESCRIPTION event_bare = None"
    by (simp_all add: event_bare_def)
  have c: "re_compile ?E ''.*'' = Some (\<lambda>t. True)"
    by (simp add: example_env_def example_re_compile_def)
  from bare_event_never_matches [OF h, of ?E] c
  have m: "is_matching ?E event_bare (Some ''.*'') = Inr False"
    by blast
  have "select_event ?E (example_self True (Some ''.*'')) [event_bare] = Inr None"
    by (simp add: select_event_def list_sort_def start_key_def comparable_keys_def
        example_self_def event_bare_def is_matching_def field_match_def example_env_def
        example_re_compile_def)
  with h c m show ?thesis by simp
qed

subsection \<open>Errors of \<open>update\<close>\<close>


















subsection \<open>Runs of \<open>update\<close>\<close>














end
